theory Spec2Isabelle
  imports Main "HOL-Library.Multiset"
begin

section \<open>JSON values of the scorer's response\<close>

text \<open>
  \<^verbatim>\<open>response.json()\<close> yields a JavaScript value built from JSON. Numbers are modelled
  as integers: the spans of the scoring protocol are pairs of integers.
\<close>

datatype json =
    JNull
  | JBool bool
  | JNum int
  | JStr string
  | JArr "json list"
  | JObj "(string \<times> json) list"

text \<open>What the program can catch or log as an error, named by where it is thrown.\<close>

datatype error =
    FetchFailed      \<comment> \<open>\<^verbatim>\<open>await fetch(...)\<close> rejects\<close>
  | BodyNotJson      \<comment> \<open>\<^verbatim>\<open>await response.json()\<close> rejects\<close>
  | NotIterable      \<comment> \<open>TypeError of an array pattern applied to a value that is not iterable\<close>
  | LeafIsNull       \<comment> \<open>TypeError of reading a property of \<^verbatim>\<open>null\<close>\<close>

text \<open>The operand of \<^verbatim>\<open>result && ...\<close>: JavaScript truthiness.\<close>

fun truthy :: "json \<Rightarrow> bool" where
  "truthy JNull = False"
| "truthy (JBool b) = b"
| "truthy (JNum n) = (n \<noteq> 0)"
| "truthy (JStr s) = (s \<noteq> [])"
| "truthy (JArr xs) = True"
| "truthy (JObj kvs) = True"

text \<open>\<^verbatim>\<open>Array.isArray(result)\<close>.\<close>

fun isArray :: "json \<Rightarrow> bool" where
  "isArray (JArr xs) = True"
| "isArray v = False"

text \<open>The elements \<^verbatim>\<open>forEach\<close> visits; only an array reaches it.\<close>

fun elements :: "json \<Rightarrow> json list" where
  "elements (JArr xs) = xs"
| "elements v = []"

text \<open>
  The parameter pattern \<^verbatim>\<open>([start, length]) => ...\<close> iterates its argument. An array and
  a string are iterable (a string yields one-character strings); a component past the
  end is \<^verbatim>\<open>undefined\<close>, here \<open>None\<close>. Every other JSON value is not iterable and the
  pattern throws.
\<close>

fun nth_or_undefined :: "'a list \<Rightarrow> nat \<Rightarrow> 'a option" where
  "nth_or_undefined [] n = None"
| "nth_or_undefined (x # xs) 0 = Some x"
| "nth_or_undefined (x # xs) (Suc n) = nth_or_undefined xs n"

fun destructure :: "json \<Rightarrow> error + (json option \<times> json option)" where
  "destructure (JArr xs) = Inr (nth_or_undefined xs 0, nth_or_undefined xs 1)"
| "destructure (JStr s) =
     Inr (map_option (\<lambda>c. JStr [c]) (nth_or_undefined s 0),
          map_option (\<lambda>c. JStr [c]) (nth_or_undefined s 1))"
| "destructure v = Inl NotIterable"

section \<open>The document held by the editor\<close>

text \<open>
  The editor's document is a sequence of characters, each with its formatting: the
  \<^verbatim>\<open>highlight\<close> format registered by \<^verbatim>\<open>HighlightBlot\<close> and the other marks (bold, header,
  underline, ...), which this program never touches and which stay abstract in \<open>'m\<close>.
  A run is a maximal stretch of characters with the same formatting, so the runs are
  derived from the characters.
\<close>

record 'm cell =
  ch :: char
  highlight :: bool
  marks :: 'm

text \<open>A selection \<^verbatim>\<open>{ index, length }\<close>; the field \<open>span\<close> is its \<^verbatim>\<open>length\<close>.\<close>

record range =
  index :: nat
  span :: nat

record 'm quill =
  cells :: "'m cell list"
  selection :: "range option"

definition getText :: "'m quill \<Rightarrow> string" where
  "getText q = map ch (cells q)"

definition getSelection :: "'m quill \<Rightarrow> range option" where
  "getSelection q = selection q"

text \<open>
  Modelled from the spec: the rich-text engine (Quill) is not part of the repository, and
  \<^verbatim>\<open>quill.formatText(start, length, 'highlight', value)\<close> is the spec's
  \<^verbatim>\<open>setFormat(start, length, 'highlighted', value)\<close>: it ``applies value over
  [start, start+length)'', never throws, and a range that leaves the text is clamped to
  it (the excess is skipped).
\<close>

definition formatText :: "int \<Rightarrow> int \<Rightarrow> bool \<Rightarrow> 'm quill \<Rightarrow> 'm quill" where
  "formatText start len v q =
     q\<lparr>cells :=
        map (\<lambda>(i, c). if start \<le> int i \<and> int i < start + len then c\<lparr>highlight := v\<rparr> else c)
          (enumerate 0 (cells q))\<rparr>"

text \<open>A leaf of the document as the listener reads it: where it starts, and its text.\<close>

record leaf =
  offset :: nat
  leaf_text :: string

definition fmt :: "'m cell \<Rightarrow> bool \<times> 'm" where
  "fmt c = (highlight c, marks c)"

text \<open>
  Modelled from the spec: \<^verbatim>\<open>quill.getLeaf(index)\<close> with \<^verbatim>\<open>quill.getIndex(leaf)\<close> and
  \<^verbatim>\<open>leaf.text\<close> are the spec's \<^verbatim>\<open>resolveRun(index)\<close>, which ``returns the atomic run
  containing index and that run's start offset''; a run is ``a maximal contiguous stretch
  of document text sharing the same formatting attribute set''. No run contains an index
  past the text; the engine then has no leaf to return.
\<close>

definition getLeaf :: "'m quill \<Rightarrow> nat \<Rightarrow> leaf option" where
  "getLeaf q i =
     (if i < length (cells q) then
        let cs = cells q;
            f = fmt (cs ! i);
            before = length (takeWhile (\<lambda>c. fmt c = f) (rev (take i cs)));
            after = length (takeWhile (\<lambda>c. fmt c = f) (drop i cs))
        in Some \<lparr>offset = i - before,
                 leaf_text = map ch (take (before + after) (drop (i - before) cs))\<rparr>
      else None)"

definition getIndex :: "leaf \<Rightarrow> nat" where
  "getIndex l = offset l"

section \<open>Editor.jsx: the click listener\<close>

text \<open>
  \<^verbatim>\<open>editorContainer.addEventListener('click', (e) => {...})\<close>. The event is modelled by the
  class list of its target. The listener has no \<^verbatim>\<open>try\<close>: reading \<^verbatim>\<open>leaf.text\<close> of a missing
  leaf is an uncaught TypeError, and the document is then as it was.
\<close>

record click_event =
  classList :: "string list"

definition click_listener :: "click_event \<Rightarrow> 'm quill \<Rightarrow> error + 'm quill" where
  "click_listener e quill =
     (if ''ql-highlight'' \<in> set (classList e) then
        (case getSelection quill of
           Some rng \<Rightarrow>
             (case getLeaf quill (index rng) of
                Some leaf \<Rightarrow>
                  (let leafIndex = getIndex leaf;
                       leafLength = length (leaf_text leaf)
                   in Inr (formatText (int leafIndex) (int leafLength) False quill))
              | None \<Rightarrow> Inl LeafIsNull)
         | None \<Rightarrow> Inr quill)
      else Inr quill)"

section \<open>App: handleTextSubmit\<close>

text \<open>
  The callback of \<^verbatim>\<open>result.forEach\<close>: the pattern is matched first, then the guard
  \<^verbatim>\<open>typeof start === 'number' && typeof length === 'number' && length > 0\<close> decides
  whether \<^verbatim>\<open>formatText(start, length, 'highlight', true)\<close> is called.
\<close>

fun span_callback :: "json \<Rightarrow> 'm quill \<Rightarrow> error + 'm quill" where
  "span_callback e quill =
     (case destructure e of
        Inl err \<Rightarrow> Inl err
      | Inr (Some (JNum start), Some (JNum len)) \<Rightarrow>
          if len > 0 then Inr (formatText start len True quill) else Inr quill
      | Inr other \<Rightarrow> Inr quill)"

text \<open>
  \<^verbatim>\<open>forEach\<close> visits the elements in order. An exception of the callback ends the loop;
  what was formatted before stays formatted, so the document is returned with the error.
\<close>

fun forEach :: "json list \<Rightarrow> 'm quill \<Rightarrow> error option \<times> 'm quill" where
  "forEach [] quill = (None, quill)"
| "forEach (e # es) quill =
     (case span_callback e quill of
        Inl err \<Rightarrow> (Some err, quill)
      | Inr quill' \<Rightarrow> forEach es quill')"

text \<open>
  The body of \<^verbatim>\<open>if (quillRef.current && result && Array.isArray(result))\<close>, which the
  spec calls applyAnnotations: clear the highlight over the whole text, then apply the
  elements of the response.
\<close>

definition applyAnnotations :: "json list \<Rightarrow> 'm quill \<Rightarrow> error option \<times> 'm quill" where
  "applyAnnotations result quill =
     (let text = getText quill;
          cleared = formatText 0 (int (length text)) False quill
      in forEach result cleared)"

text \<open>
  The state the handler works on: the editor behind \<^verbatim>\<open>quillRef.current\<close> (\<open>None\<close> when no
  editor is mounted), the console, and the requests sent to the scorer.
\<close>

datatype console_event =
    LogSubmitted string      \<comment> \<open>\<^verbatim>\<open>console.log('Text submitted from editor:', text)\<close>\<close>
  | LogResponse json         \<comment> \<open>\<^verbatim>\<open>console.log('Feedback API response:', result)\<close>\<close>
  | ErrorFeedback error      \<comment> \<open>\<^verbatim>\<open>console.error('Error calling feedback API:', error)\<close>\<close>

record 'm app =
  quillRef :: "'m quill option"
  console :: "console_event list"
  requests :: "string list"

text \<open>How the one round trip to the scorer ends.\<close>

datatype round_trip =
    FetchRejects
  | JsonRejects
  | Resolves json

text \<open>Up to the first \<^verbatim>\<open>await\<close>: the log line and the POST of \<^verbatim>\<open>{ text: text }\<close>.\<close>

definition handleTextSubmit_send :: "string \<Rightarrow> 'm app \<Rightarrow> 'm app" where
  "handleTextSubmit_send text st =
     st\<lparr>console := console st @ [LogSubmitted text], requests := requests st @ [text]\<rparr>"

definition console_error :: "error \<Rightarrow> 'm app \<Rightarrow> 'm app" where
  "console_error err st = st\<lparr>console := console st @ [ErrorFeedback err]\<rparr>"

text \<open>From the answer of the round trip on, the \<^verbatim>\<open>catch\<close> included.\<close>

definition handleTextSubmit_resume :: "round_trip \<Rightarrow> 'm app \<Rightarrow> 'm app" where
  "handleTextSubmit_resume rt st =
     (case rt of
        FetchRejects \<Rightarrow> console_error FetchFailed st
      | JsonRejects \<Rightarrow> console_error BodyNotJson st
      | Resolves result \<Rightarrow>
          (let st1 = st\<lparr>console := console st @ [LogResponse result]\<rparr> in
           case quillRef st1 of
             Some quill \<Rightarrow>
               if truthy result \<and> isArray result then
                 (case applyAnnotations (elements result) quill of
                    (None, quill') \<Rightarrow> st1\<lparr>quillRef := Some quill'\<rparr>
                  | (Some err, quill') \<Rightarrow> console_error err (st1\<lparr>quillRef := Some quill'\<rparr>))
               else st1
           | None \<Rightarrow> st1))"

definition handleTextSubmit :: "string \<Rightarrow> round_trip \<Rightarrow> 'm app \<Rightarrow> 'm app" where
  "handleTextSubmit text rt st = handleTextSubmit_resume rt (handleTextSubmit_send text st)"

text \<open>
  What the caller of the async handler holds: the promise of the call, settled one way
  or the other. The caller in \<^verbatim>\<open>Editor.jsx\<close>, \<^verbatim>\<open>onSubmitRef.current(text)\<close>, does not
  even keep it.
\<close>

datatype promise =
    Fulfilled
  | Rejected error

text \<open>
  The exception the \<^verbatim>\<open>try\<close> block ends with, if any: \<^verbatim>\<open>fetch\<close> rejected, decoding the
  body rejected, or the loop over the response threw.
\<close>

definition try_block_throws :: "round_trip \<Rightarrow> 'm app \<Rightarrow> error option" where
  "try_block_throws rt st =
     (case rt of
        FetchRejects \<Rightarrow> Some FetchFailed
      | JsonRejects \<Rightarrow> Some BodyNotJson
      | Resolves result \<Rightarrow>
          (case quillRef st of
             Some quill \<Rightarrow>
               if truthy result \<and> isArray result
               then fst (applyAnnotations (elements result) quill)
               else None
           | None \<Rightarrow> None))"

text \<open>
  The \<^verbatim>\<open>catch\<close> clause calls \<^verbatim>\<open>console.error\<close> and ends; it throws nothing again. So the
  async function returns normally after the \<^verbatim>\<open>try\<close> statement whether or not something
  was caught, and its promise is fulfilled.
\<close>

definition handleTextSubmit_promise :: "string \<Rightarrow> round_trip \<Rightarrow> 'm app \<Rightarrow> promise" where
  "handleTextSubmit_promise text rt st =
     (case try_block_throws rt (handleTextSubmit_send text st) of
        Some err \<Rightarrow> Fulfilled
      | None \<Rightarrow> Fulfilled)"

section \<open>Vocabulary of the properties\<close>

text \<open>A span \<open>(start, length)\<close> as the scorer sends it: the array \<^verbatim>\<open>[start, length]\<close>.\<close>

fun span_json :: "int \<times> int \<Rightarrow> json" where
  "span_json (start, len) = JArr [JNum start, JNum len]"

fun within :: "nat \<Rightarrow> int \<times> int \<Rightarrow> bool" where
  "within i (start, len) = (start \<le> int i \<and> int i < start + len)"

fun in_bounds :: "nat \<Rightarrow> int \<times> int \<Rightarrow> bool" where
  "in_bounds N (start, len) = (0 \<le> start \<and> 0 < len \<and> start + len \<le> int N)"

fun overlap :: "int \<times> int \<Rightarrow> int \<times> int \<Rightarrow> bool" where
  "overlap (s1, l1) (s2, l2) = (s1 < s2 + l2 \<and> s2 < s1 + l1)"

fun disjoint_spans :: "(int \<times> int) list \<Rightarrow> bool" where
  "disjoint_spans [] = True"
| "disjoint_spans (p # ps) = (list_all (\<lambda>r. \<not> overlap p r) ps \<and> disjoint_spans ps)"

definition covered :: "(int \<times> int) list \<Rightarrow> nat \<Rightarrow> bool" where
  "covered S i = list_ex (within i) S"

definition highlighted :: "'m quill \<Rightarrow> nat \<Rightarrow> bool" where
  "highlighted q i = (i < length (cells q) \<and> highlight (cells q ! i))"

definition highlights :: "'m quill \<Rightarrow> bool list" where
  "highlights q = map highlight (cells q)"

text \<open>
  The two halves of reconciliation written as one pass over the characters: \<open>cleared\<close> is
  the clearing call, \<open>paint S\<close> sets the highlight of every character some span of \<open>S\<close>
  covers.
\<close>

definition cleared :: "'m quill \<Rightarrow> 'm quill" where
  "cleared q = formatText 0 (int (length (getText q))) False q"

definition paint :: "(int \<times> int) list \<Rightarrow> 'm quill \<Rightarrow> 'm quill" where
  "paint S q =
     q\<lparr>cells :=
        map (\<lambda>(i, c). if covered S i then c\<lparr>highlight := True\<rparr> else c) (enumerate 0 (cells q))\<rparr>"

text \<open>
  A run of the document: \<open>n\<close> characters from \<open>a\<close> on with one formatting, which the
  character before and the character after (if any) do not share.
\<close>

definition is_run :: "'m quill \<Rightarrow> nat \<Rightarrow> nat \<Rightarrow> bool" where
  "is_run q a n =
     (0 < n \<and> a + n \<le> length (cells q) \<and>
      list_all (\<lambda>c. fmt c = fmt (cells q ! a)) (take n (drop a (cells q))) \<and>
      (a = 0 \<or> fmt (cells q ! (a - 1)) \<noteq> fmt (cells q ! a)) \<and>
      (a + n = length (cells q) \<or> fmt (cells q ! (a + n)) \<noteq> fmt (cells q ! a)))"

section \<open>Documents to run the program on\<close>

text \<open>
  \<^verbatim>\<open>new Delta().insert(text, attributes)\<close>: the characters of one insert, all with the
  same formatting. \<open>defaultValue\<close> is the document \<^verbatim>\<open>App\<close> starts the editor with.
\<close>

type_synonym attributes = "(string \<times> string) list"

definition delta_insert :: "string \<Rightarrow> bool \<Rightarrow> 'm \<Rightarrow> 'm cell list" where
  "delta_insert s h m = map (\<lambda>c. \<lparr>ch = c, highlight = h, marks = m\<rparr>) s"

definition defaultValue :: "attributes cell list" where
  "defaultValue =
     delta_insert ''Hello'' False [] @
     delta_insert [CHR 0x0A] False [(''header'', ''1'')] @
     delta_insert ''Some '' False [] @
     delta_insert ''initial'' False [(''bold'', ''true'')] @
     delta_insert '' '' False [] @
     delta_insert ''highlighted text'' True [] @
     delta_insert '' and '' False [] @
     delta_insert ''content'' False [(''underline'', ''true'')] @
     delta_insert [CHR 0x0A] False []"

definition setContents :: "'m cell list \<Rightarrow> 'm quill" where
  "setContents cs = \<lparr>cells = cs, selection = None\<rparr>"

definition setSelection :: "nat \<Rightarrow> 'm quill \<Rightarrow> 'm quill" where
  "setSelection i q = q\<lparr>selection := Some \<lparr>index = i, span = 0\<rparr>\<rparr>"

definition mounted :: "'m quill \<Rightarrow> 'm app" where
  "mounted q = \<lparr>quillRef = Some q, console = [], requests = []\<rparr>"

definition hello_world :: "attributes quill" where
  "hello_world = setContents (delta_insert ''Hello world'' False [])"

definition ten_chars :: "attributes quill" where
  "ten_chars = setContents (delta_insert ''0123456789'' False [])"

definition dismiss_example :: "attributes quill" where
  "dismiss_example =
     setSelection 9
       (setContents
          (delta_insert ''Some '' False [] @
           delta_insert ''highlight '' True [] @
           delta_insert ''and '' False [] @
           delta_insert ''more'' True []))"

definition highlights_of :: "'m app \<Rightarrow> bool list option" where
  "highlights_of st = map_option highlights (quillRef st)"

section \<open>The formatting call\<close>

lemma quill_eqI:
  "cells a = cells b \<Longrightarrow> selection a = selection b \<Longrightarrow> quill.more a = quill.more b \<Longrightarrow> a = b"
  by simp

lemma formatText_length [simp]: "length (cells (formatText s l v q)) = length (cells q)"
  by (simp add: formatText_def)

lemma formatText_nth:
  "i < length (cells q) \<Longrightarrow>
   cells (formatText s l v q) ! i =
     (if s \<le> int i \<and> int i < s + l then (cells q ! i)\<lparr>highlight := v\<rparr> else cells q ! i)"
  by (simp add: formatText_def nth_enumerate_eq)

lemma formatText_selection [simp]: "selection (formatText s l v q) = selection q"
  by (simp add: formatText_def)

lemma formatText_more [simp]: "quill.more (formatText s l v q) = quill.more q"
  by (simp add: formatText_def)

lemma formatText_getText [simp]: "getText (formatText s l v q) = getText q"
  by (rule nth_equalityI) (simp_all add: getText_def formatText_nth)

lemma cleared_length [simp]: "length (cells (cleared q)) = length (cells q)"
  by (simp add: cleared_def)

lemma cleared_nth:
  "i < length (cells q) \<Longrightarrow> cells (cleared q) ! i = (cells q ! i)\<lparr>highlight := False\<rparr>"
  by (simp add: cleared_def formatText_nth getText_def)

lemma cleared_getText [simp]: "getText (cleared q) = getText q"
  by (simp add: cleared_def)

lemma cleared_formatText: "cleared (formatText s l v q) = cleared q"
proof (rule quill_eqI)
  show "cells (cleared (formatText s l v q)) = cells (cleared q)"
    by (rule nth_equalityI) (simp_all add: cleared_nth formatText_nth)
qed (simp_all add: cleared_def)

lemma cleared_cleared: "cleared (cleared q) = cleared q"
proof -
  have "cleared (cleared q) = cleared (formatText 0 (int (length (getText q))) False q)"
    by (simp add: cleared_def)
  then show ?thesis by (simp only: cleared_formatText)
qed

lemma paint_length [simp]: "length (cells (paint S q)) = length (cells q)"
  by (simp add: paint_def)

lemma paint_nth:
  "i < length (cells q) \<Longrightarrow>
   cells (paint S q) ! i =
     (if covered S i then (cells q ! i)\<lparr>highlight := True\<rparr> else cells q ! i)"
  by (simp add: paint_def nth_enumerate_eq)

lemma paint_getText [simp]: "getText (paint S q) = getText q"
  by (rule nth_equalityI) (simp_all add: getText_def paint_nth)

lemma covered_iff: "covered S i \<longleftrightarrow> (\<exists>p \<in> set S. within i p)"
  by (simp add: covered_def list_ex_iff)

lemma paint_cong: "set S = set S' \<Longrightarrow> paint S q = paint S' q"
  by (simp add: paint_def covered_iff)

lemma highlighted_paint_cleared:
  "highlighted (paint S (cleared q)) i \<longleftrightarrow> i < length (getText q) \<and> covered S i"
  by (auto simp: highlighted_def paint_nth cleared_nth getText_def split: if_splits)

section \<open>The loop over the response\<close>

lemma span_callback_span:
  "span_callback (span_json (s, l)) q = Inr (if 0 < l then formatText s l True q else q)"
  by simp

lemma forEach_spans: "forEach (map span_json S) q = (None, paint S q)"
proof (induction S arbitrary: q)
  case Nil
  have "paint [] q = q"
    by (rule quill_eqI) (auto simp: paint_def covered_def nth_enumerate_eq intro: nth_equalityI)
  then show ?case by simp
next
  case (Cons p S)
  obtain s l where p: "p = (s, l)" by (cases p)
  let ?q1 = "if 0 < l then formatText s l True q else q"
  have "paint S ?q1 = paint (p # S) q"
  proof (rule quill_eqI)
    show "cells (paint S ?q1) = cells (paint (p # S) q)"
      by (rule nth_equalityI) (auto simp: paint_nth formatText_nth covered_def p)
  qed (simp_all add: paint_def)
  with Cons.IH [of ?q1] show ?case
    by (simp add: p span_callback_span del: span_callback.simps span_json.simps)
qed

text \<open>
  What the loop does with one element that is no span: an array without two leading
  numbers, the second positive, and a string are passed over; a value that is not
  iterable ends the loop with the error.
\<close>

lemma forEach_invalid_array:
  assumes inv: "\<not> (\<exists>s l rest. xs = JNum s # JNum l # rest \<and> 0 < l)"
  shows "forEach (JArr xs # es) q = forEach es q"
proof (cases xs)
  case Nil
  then show ?thesis by simp
next
  case outer: (Cons x ys)
  show ?thesis
  proof (cases ys)
    case Nil
    with outer show ?thesis by (simp split: json.splits)
  next
    case (Cons y zs)
    with outer inv show ?thesis by (auto split: json.splits)
  qed
qed

lemma forEach_string_element: "forEach (JStr s # es) q = forEach es q"
  by (cases s; cases "tl s") (auto split: option.splits json.splits)

lemma forEach_not_iterable:
  "e = JNull \<or> e = JBool b \<or> e = JNum n \<or> e = JObj kvs \<Longrightarrow>
   forEach (e # es) q = (Some NotIterable, q)"
  by auto

lemma cleared_span_callback: "span_callback e q = Inr q' \<Longrightarrow> cleared q' = cleared q"
  by (auto simp: cleared_formatText split: sum.splits option.splits json.splits if_splits)

lemma cleared_forEach: "cleared (snd (forEach js q)) = cleared q"
proof (induction js arbitrary: q)
  case Nil
  show ?case by simp
next
  case (Cons e js)
  show ?case
  proof (cases "span_callback e q")
    case (Inl err)
    then show ?thesis by simp
  next
    case (Inr q')
    with Cons.IH [of q'] cleared_span_callback [OF Inr] show ?thesis by simp
  qed
qed

lemma applyAnnotations_cleared: "applyAnnotations js q = forEach js (cleared q)"
  by (simp add: applyAnnotations_def cleared_def Let_def)

lemma applyAnnotations_spans:
  "applyAnnotations (map span_json S) q = (None, paint S (cleared q))"
  by (simp add: applyAnnotations_cleared forEach_spans)

lemma handleTextSubmit_spans:
  "quillRef st = Some q \<Longrightarrow>
   quillRef (handleTextSubmit t (Resolves (JArr (map span_json S))) st) =
     Some (paint S (cleared q))"
  by (simp add: handleTextSubmit_def handleTextSubmit_resume_def handleTextSubmit_send_def
      applyAnnotations_spans)


lemmas submit_defs =
  handleTextSubmit_def handleTextSubmit_resume_def handleTextSubmit_send_def console_error_def

section \<open>Runs and leaves\<close>

lemma length_takeWhile_eq:
  assumes "k \<le> length xs"
    and "\<And>j. j < k \<Longrightarrow> P (xs ! j)"
    and "k < length xs \<Longrightarrow> \<not> P (xs ! k)"
  shows "length (takeWhile P xs) = k"
proof -
  have "takeWhile P xs = take k xs"
    by (rule takeWhile_eq_take_P_nth) (use assms in auto)
  with assms(1) show ?thesis by simp
qed

lemma is_run_nth:
  assumes r: "is_run q a n" and j: "a \<le> j" "j < a + n"
  shows "fmt (cells q ! j) = fmt (cells q ! a)"
proof -
  let ?xs = "take n (drop a (cells q))"
  from r have N: "a + n \<le> length (cells q)" by (simp add: is_run_def)
  from r have "list_all (\<lambda>c. fmt c = fmt (cells q ! a)) ?xs" by (simp add: is_run_def)
  then have all: "\<forall>k < length ?xs. fmt (?xs ! k) = fmt (cells q ! a)"
    by (simp only: list_all_length)
  from N j have k: "j - a < length ?xs" by simp
  from N j have "?xs ! (j - a) = cells q ! j" by simp
  with all k show ?thesis by metis
qed

text \<open>The leaf found at an index inside a run is that run, whole.\<close>

lemma getLeaf_run:
  assumes r: "is_run q a n" and i: "a \<le> i" "i < a + n"
  shows "getLeaf q i = Some \<lparr>offset = a, leaf_text = map ch (take n (drop a (cells q)))\<rparr>"
proof -
  let ?cs = "cells q"
  let ?P = "\<lambda>c. fmt c = fmt (?cs ! i)"
  from r have N: "a + n \<le> length ?cs" by (simp add: is_run_def)
  with i have iN: "i < length ?cs" by simp
  have fi: "fmt (?cs ! i) = fmt (?cs ! a)" using is_run_nth [OF r i] .
  have before: "length (takeWhile ?P (rev (take i ?cs))) = i - a"
  proof (rule length_takeWhile_eq)
    show "i - a \<le> length (rev (take i ?cs))" using iN by simp
  next
    fix j assume j: "j < i - a"
    then have "rev (take i ?cs) ! j = ?cs ! (i - Suc j)"
      using iN by (simp add: rev_nth)
    moreover have "fmt (?cs ! (i - Suc j)) = fmt (?cs ! a)"
      by (rule is_run_nth [OF r]) (use j i in auto)
    ultimately show "?P (rev (take i ?cs) ! j)" by (simp add: fi)
  next
    assume "i - a < length (rev (take i ?cs))"
    then have a0: "0 < a" using iN i by simp
    then have "rev (take i ?cs) ! (i - a) = ?cs ! (a - 1)"
      using iN i by (simp add: rev_nth)
    moreover from r a0 have "fmt (?cs ! (a - 1)) \<noteq> fmt (?cs ! a)" by (simp add: is_run_def)
    ultimately show "\<not> ?P (rev (take i ?cs) ! (i - a))" by (simp add: fi)
  qed
  have after: "length (takeWhile ?P (drop i ?cs)) = a + n - i"
  proof (rule length_takeWhile_eq)
    show "a + n - i \<le> length (drop i ?cs)" using N by simp
  next
    fix j assume j: "j < a + n - i"
    have "fmt (?cs ! (i + j)) = fmt (?cs ! a)"
      by (rule is_run_nth [OF r]) (use j i in auto)
    with j N show "?P (drop i ?cs ! j)" by (simp add: fi)
  next
    assume "a + n - i < length (drop i ?cs)"
    then have lt: "a + n < length ?cs" using i by simp
    with r have "fmt (?cs ! (a + n)) \<noteq> fmt (?cs ! a)" by (simp add: is_run_def)
    moreover have "drop i ?cs ! (a + n - i) = ?cs ! (a + n)" using lt i by simp
    ultimately show "\<not> ?P (drop i ?cs ! (a + n - i))" by (simp add: fi)
  qed
  from i have "i - (i - a) = a" "i - a + (a + n - i) = n" by simp_all
  with iN before after show ?thesis by (simp add: getLeaf_def Let_def)
qed

section \<open>Reconciliation\<close>

text \<open>
  C1 (coverage exactness). With an editor mounted and a response that is a list of
  disjoint spans inside the text, \<^verbatim>\<open>handleTextSubmit\<close> leaves the text as it is and a
  character at index \<open>i\<close> is highlighted exactly when \<open>i\<close> lies in some span of the list.
\<close>

theorem coverage_exactness:
  assumes "quillRef st = Some q"
    and "list_all (in_bounds (length (getText q))) S"
    and "disjoint_spans S"
  shows "\<exists>q'. quillRef (handleTextSubmit t (Resolves (JArr (map span_json S))) st) = Some q' \<and>
           getText q' = getText q \<and>
           (\<forall>i < length (getText q). highlighted q' i \<longleftrightarrow> (\<exists>p \<in> set S. within i p))"
proof -
  let ?q' = "paint S (cleared q)"
  have "quillRef (handleTextSubmit t (Resolves (JArr (map span_json S))) st) = Some ?q'"
    using assms(1) by (rule handleTextSubmit_spans)
  moreover have "getText ?q' = getText q" by simp
  moreover have "\<forall>i < length (getText q). highlighted ?q' i \<longleftrightarrow> (\<exists>p \<in> set S. within i p)"
    by (simp add: highlighted_paint_cleared covered_iff)
  ultimately show ?thesis by blast
qed

text \<open>The spec's scenario: \<^verbatim>\<open>"Hello world"\<close> and the response \<^verbatim>\<open>[[0,5]]\<close>.\<close>

theorem coverage_exactness_witness:
  "list_all (in_bounds (length (getText hello_world))) [(0, 5)] \<and> disjoint_spans [(0, 5)] \<and>
   (\<exists>q'. quillRef (handleTextSubmit ''Hello world'' (Resolves (JArr (map span_json [(0, 5)])))
             (mounted hello_world)) = Some q' \<and>
      highlighted q' 0 \<and> highlighted q' 4 \<and> \<not> highlighted q' 5 \<and> \<not> highlighted q' 10)"
proof -
  have n: "length (getText hello_world) = 11"
    by (simp add: hello_world_def setContents_def delta_insert_def getText_def)
  have h1: "quillRef (mounted hello_world) = Some hello_world" by (simp add: mounted_def)
  have h2: "list_all (in_bounds (length (getText hello_world))) [(0, 5)]" by (simp add: n)
  have h3: "disjoint_spans [(0, 5)]" by simp
  from coverage_exactness [OF h1 h2 h3, of "''Hello world''"] obtain q' where
    q': "quillRef (handleTextSubmit ''Hello world'' (Resolves (JArr (map span_json [(0, 5)])))
             (mounted hello_world)) = Some q'"
    and hl: "\<forall>i < length (getText hello_world).
               highlighted q' i \<longleftrightarrow> (\<exists>p \<in> set [(0, 5)]. within i p)"
    by blast
  from hl have "highlighted q' 0" "highlighted q' 4" "\<not> highlighted q' 5" "\<not> highlighted q' 10"
    by (simp_all add: n)
  with q' h2 h3 show ?thesis by blast
qed

text \<open>
  C2 (out-of-bounds spans), as the code has it. The handler has no bounds check: every
  span of positive length goes to \<^verbatim>\<open>formatText\<close> as it is, and the engine clamps it. So
  reconciliation never raises, keeps the text, and a character \<open>i\<close> of the text ends
  highlighted exactly when \<open>i\<close> lies in \<open>[start, start + length)\<close> of some span of the
  response, whether that span stays inside the text or not.
\<close>

theorem out_of_bounds_clamped:
  "fst (applyAnnotations (map span_json S) q) = None \<and>
   getText (snd (applyAnnotations (map span_json S) q)) = getText q \<and>
   (\<forall>i. highlighted (snd (applyAnnotations (map span_json S) q)) i \<longleftrightarrow>
        i < length (getText q) \<and> (\<exists>p \<in> set S. within i p))"
  by (simp add: applyAnnotations_spans highlighted_paint_cleared covered_iff)

text \<open>Ten characters and the span \<open>(8, 5)\<close>: the characters 8 and 9 are highlighted.\<close>

theorem out_of_bounds_clamped_witness:
  "fst (applyAnnotations (map span_json [(8, 5)]) ten_chars) = None \<and>
   \<not> highlighted (snd (applyAnnotations (map span_json [(8, 5)]) ten_chars)) 7 \<and>
   highlighted (snd (applyAnnotations (map span_json [(8, 5)]) ten_chars)) 8 \<and>
   highlighted (snd (applyAnnotations (map span_json [(8, 5)]) ten_chars)) 9 \<and>
   \<not> highlighted (snd (applyAnnotations (map span_json [(8, 5)]) ten_chars)) 10"
proof -
  have n: "length (getText ten_chars) = 10"
    by (simp add: ten_chars_def setContents_def delta_insert_def getText_def)
  from out_of_bounds_clamped [of "[(8, 5)]" ten_chars] show ?thesis
    by (simp add: n)
qed

text \<open>
  The claim's own example fails: the span is not dropped, the last two of the ten
  characters are highlighted.
\<close>

theorem out_of_bounds_drop_counterexample:
  "length (getText ten_chars) = 10 \<and>
   \<not> in_bounds 10 (8, 5) \<and>
   highlights (snd (applyAnnotations [span_json (8, 5)] ten_chars)) =
     [False, False, False, False, False, False, False, False, True, True]"
  by code_simp

text \<open>
  C5 (full reset). Whatever was highlighted before, reconciliation with the empty
  response raises nothing, keeps the text and leaves no character highlighted.
\<close>

theorem full_reset:
  "fst (applyAnnotations [] q) = None \<and>
   getText (snd (applyAnnotations [] q)) = getText q \<and>
   (\<forall>i. \<not> highlighted (snd (applyAnnotations [] q)) i)"
  using applyAnnotations_spans [of "[]" q]
  by (simp add: highlighted_paint_cleared covered_def)

text \<open>
  C6 (idempotence). Reconciling twice with the same response, with no edit in between,
  gives the document (and the outcome) of reconciling once. It holds for every response
  array \<open>js\<close> and every starting document, so for every span list \<open>map span_json S\<close>.
\<close>

theorem idempotence:
  "applyAnnotations js (snd (applyAnnotations js q)) = applyAnnotations js q"
  by (simp add: applyAnnotations_cleared cleared_forEach cleared_cleared)

text \<open>
  C8 (order independence). Two span lists that are permutations of one another give
  the same document.
\<close>

theorem order_independence:
  "mset S' = mset S \<Longrightarrow>
   applyAnnotations (map span_json S') q = applyAnnotations (map span_json S) q"
  using paint_cong [of S' S "cleared q"] mset_eq_setD [of S' S]
  by (simp add: applyAnnotations_spans)

theorem order_independence_witness:
  "mset [(6, 5), (0, 5)] = mset [(0, 5), (6 :: int, 5 :: int)] \<and>
   applyAnnotations (map span_json [(6, 5), (0, 5)]) hello_world =
   applyAnnotations (map span_json [(0, 5), (6, 5)]) hello_world"
proof -
  have h: "mset [(6, 5), (0, 5)] = mset [(0, 5), (6 :: int, 5 :: int)]" by simp
  from order_independence [OF h, of hello_world] h show ?thesis by blast
qed

section \<open>Responses that are not span lists, and failed round trips\<close>

text \<open>
  C3 (malformed body), as the code has it. A response body that is not an array (the
  object \<^verbatim>\<open>{}\<close>, \<^verbatim>\<open>null\<close>, a number, a string) fails the guard of the handler:
  the document is not touched, one request was sent, and the console gets the two
  log lines and no \<^verbatim>\<open>console.error\<close>.
\<close>

theorem non_array_body_no_mutation:
  "\<not> isArray body \<Longrightarrow>
   quillRef (handleTextSubmit t (Resolves body) st) = quillRef st \<and>
   console (handleTextSubmit t (Resolves body) st) =
     console st @ [LogSubmitted t, LogResponse body] \<and>
   requests (handleTextSubmit t (Resolves body) st) = requests st @ [t]"
  by (simp add: submit_defs Let_def split: option.splits)

theorem non_array_body_no_mutation_witness:
  "\<not> isArray (JObj []) \<and>
   quillRef (handleTextSubmit ''Hello world'' (Resolves (JObj []))
       (mounted (setContents defaultValue))) =
     Some (setContents defaultValue) \<and>
   console (handleTextSubmit ''Hello world'' (Resolves (JObj []))
       (mounted (setContents defaultValue))) =
     [LogSubmitted ''Hello world'', LogResponse (JObj [])]"
proof -
  have h: "\<not> isArray (JObj [])" by simp
  from non_array_body_no_mutation
    [OF h, of "''Hello world''" "mounted (setContents defaultValue)"] h
  show ?thesis by (simp add: mounted_def)
qed

text \<open>
  The claim fails twice. For the body \<^verbatim>\<open>{}\<close> nothing is reported: the console holds the
  two log lines only. And an array that is no span list, here \<^verbatim>\<open>[{}]\<close>, passes the guard:
  the clearing call runs before the elements are looked at, and the sixteen highlighted
  characters of the initial document are highlighted no more.
\<close>

theorem malformed_body_counterexample:
  "console (handleTextSubmit ''Hello world'' (Resolves (JObj [])) (mounted hello_world)) =
     [LogSubmitted ''Hello world'', LogResponse (JObj [])] \<and>
   highlights (setContents defaultValue) =
     replicate 19 False @ replicate 16 True @ replicate 13 False \<and>
   highlights_of (handleTextSubmit ''Hello world'' (Resolves (JArr [JObj []]))
       (mounted (setContents defaultValue))) =
     Some (replicate 48 False)"
  by code_simp

text \<open>
  The console tells what the \<^verbatim>\<open>try\<close> block threw: the handler logs the response when
  there is one, and then the caught error when there is one.
\<close>

lemma console_error_iff_thrown:
  "console (handleTextSubmit_resume rt st) =
     console st @
     (case rt of Resolves result \<Rightarrow> [LogResponse result] | _ \<Rightarrow> []) @
     (case try_block_throws rt st of Some err \<Rightarrow> [ErrorFeedback err] | None \<Rightarrow> [])"
  by (cases rt)
    (auto simp: handleTextSubmit_resume_def try_block_throws_def console_error_def Let_def
      split: option.splits prod.splits)

text \<open>
  C4 (transport failure), as the code has it. When \<^verbatim>\<open>fetch\<close> rejects, or when decoding
  the body rejects, the document is not touched, the one request of the call is the only
  one sent, and the error goes to \<^verbatim>\<open>console.error\<close>. It does not go to the caller: the
  handler catches it and the promise of the call is fulfilled.
\<close>

theorem transport_failure_swallowed:
  "quillRef (handleTextSubmit t FetchRejects st) = quillRef st \<and>
   console (handleTextSubmit t FetchRejects st) =
     console st @ [LogSubmitted t, ErrorFeedback FetchFailed] \<and>
   requests (handleTextSubmit t FetchRejects st) = requests st @ [t] \<and>
   handleTextSubmit_promise t FetchRejects st = Fulfilled \<and>
   quillRef (handleTextSubmit t JsonRejects st) = quillRef st \<and>
   console (handleTextSubmit t JsonRejects st) =
     console st @ [LogSubmitted t, ErrorFeedback BodyNotJson] \<and>
   requests (handleTextSubmit t JsonRejects st) = requests st @ [t] \<and>
   handleTextSubmit_promise t JsonRejects st = Fulfilled"
  by (simp add: submit_defs handleTextSubmit_promise_def try_block_throws_def)

text \<open>
  The claim fails in its report to the caller: with a rejected \<^verbatim>\<open>fetch\<close> the \<^verbatim>\<open>try\<close> block
  throws, yet the caller gets a fulfilled promise, the same it gets when the scorer
  answered \<^verbatim>\<open>[[0,5]]\<close> and nothing was thrown.
\<close>

theorem transport_failure_report_counterexample:
  "try_block_throws FetchRejects (handleTextSubmit_send ''Hello world'' (mounted hello_world)) =
     Some FetchFailed \<and>
   handleTextSubmit_promise ''Hello world'' FetchRejects (mounted hello_world) = Fulfilled \<and>
   try_block_throws (Resolves (JArr [span_json (0, 5)]))
       (handleTextSubmit_send ''Hello world'' (mounted hello_world)) = None \<and>
   handleTextSubmit_promise ''Hello world'' (Resolves (JArr [span_json (0, 5)]))
       (mounted hello_world) = Fulfilled"
  by code_simp

text \<open>
  C10 (elements validated one by one) fails on an element that is not iterable. For the
  response \<^verbatim>\<open>[null, [0,5]]\<close> on \<^verbatim>\<open>"Hello world"\<close> the pattern throws at \<^verbatim>\<open>null\<close>, after
  the clearing call; the error is caught and logged and \<^verbatim>\<open>[0,5]\<close> is never applied.
  Alone, \<^verbatim>\<open>[[0,5]]\<close> highlights the first five characters.
\<close>

theorem garbage_element_aborts:
  "highlights_of (handleTextSubmit ''Hello world'' (Resolves (JArr [JNull, span_json (0, 5)]))
       (mounted hello_world)) = Some (replicate 11 False) \<and>
   console (handleTextSubmit ''Hello world'' (Resolves (JArr [JNull, span_json (0, 5)]))
       (mounted hello_world)) =
     [LogSubmitted ''Hello world'', LogResponse (JArr [JNull, span_json (0, 5)]),
      ErrorFeedback NotIterable] \<and>
   highlights_of (handleTextSubmit ''Hello world'' (Resolves (JArr [span_json (0, 5)]))
       (mounted hello_world)) = Some (replicate 5 True @ replicate 6 False)"
  by code_simp

section \<open>The click listener\<close>

text \<open>
  C7 (run-level dismiss). A click on a highlighted element, with the selection index
  inside a highlighted run \<open>[a, a + n)\<close>, raises nothing, keeps the text, removes the
  highlight from every character of the run and changes the highlight of no character
  outside it. A run is a maximal stretch of characters with one formatting.
\<close>

theorem run_level_dismiss:
  assumes "''ql-highlight'' \<in> set (classList e)"
    and "getSelection q = Some rng"
    and "is_run q a n" and "highlighted q a"
    and "a \<le> index rng" and "index rng < a + n"
  shows "\<exists>q'. click_listener e q = Inr q' \<and> getText q' = getText q \<and>
           (\<forall>i. highlighted q' i \<longleftrightarrow> highlighted q i \<and> \<not> (a \<le> i \<and> i < a + n))"
proof -
  let ?q' = "formatText (int a) (int n) False q"
  from assms(3) have N: "a + n \<le> length (cells q)" by (simp add: is_run_def)
  have "click_listener e q = Inr ?q'"
    using assms(1,2) getLeaf_run [OF assms(3,5,6)] N
    by (simp add: click_listener_def getIndex_def Let_def)
  moreover have "\<forall>i. highlighted ?q' i \<longleftrightarrow> highlighted q i \<and> \<not> (a \<le> i \<and> i < a + n)"
    by (auto simp: highlighted_def formatText_nth split: if_splits)
  ultimately show ?thesis by simp
qed

text \<open>
  The claim's example: the run \<open>[5, 15)\<close> is highlighted, and so is \<open>[19, 23)\<close>; the
  selection is at 9.
\<close>

theorem run_level_dismiss_witness:
  "''ql-highlight'' \<in> set (classList \<lparr>classList = [''ql-highlight'']\<rparr>) \<and>
   getSelection dismiss_example = Some \<lparr>index = 9, span = 0\<rparr> \<and>
   is_run dismiss_example 5 10 \<and> highlighted dismiss_example 5 \<and>
   (\<exists>q'. click_listener \<lparr>classList = [''ql-highlight'']\<rparr> dismiss_example = Inr q' \<and>
      \<not> highlighted q' 4 \<and> \<not> highlighted q' 5 \<and> \<not> highlighted q' 9 \<and>
      \<not> highlighted q' 14 \<and> \<not> highlighted q' 15 \<and> highlighted q' 19 \<and> highlighted q' 22)"
proof -
  let ?e = "\<lparr>classList = [''ql-highlight'']\<rparr>"
  let ?rng = "\<lparr>index = 9, span = 0\<rparr>"
  have h1: "''ql-highlight'' \<in> set (classList ?e)" by simp
  have h2: "getSelection dismiss_example = Some ?rng"
    by (simp add: getSelection_def dismiss_example_def setSelection_def)
  have h3: "is_run dismiss_example 5 10"
    by (simp add: is_run_def dismiss_example_def setSelection_def setContents_def
        delta_insert_def fmt_def)
  have hl: "highlighted dismiss_example 5" "\<not> highlighted dismiss_example 4"
    "\<not> highlighted dismiss_example 15" "highlighted dismiss_example 19"
    "highlighted dismiss_example 22"
    by (simp_all add: highlighted_def dismiss_example_def setSelection_def setContents_def
        delta_insert_def)
  have h5: "5 \<le> index ?rng" and h6: "index ?rng < 5 + 10" by simp_all
  from run_level_dismiss [OF h1 h2 h3 hl(1) h5 h6] obtain q' where
    q': "click_listener ?e dismiss_example = Inr q'"
    and eq: "\<forall>i. highlighted q' i \<longleftrightarrow> highlighted dismiss_example i \<and> \<not> (5 \<le> i \<and> i < 5 + 10)"
    by blast
  from eq hl have "\<not> highlighted q' 4" "\<not> highlighted q' 5" "\<not> highlighted q' 9"
    "\<not> highlighted q' 14" "\<not> highlighted q' 15" "highlighted q' 19" "highlighted q' 22"
    by simp_all
  with q' h1 h2 h3 hl(1) show ?thesis by blast
qed

text \<open>
  C9 (no selection). When the editor reports no selection, the listener returns the
  document as it was, whatever was clicked.
\<close>

theorem click_without_selection:
  "getSelection q = None \<Longrightarrow> click_listener e q = Inr q"
  by (simp add: click_listener_def)

theorem click_without_selection_witness:
  "getSelection (setContents defaultValue) = None \<and>
   click_listener \<lparr>classList = [''ql-highlight'']\<rparr> (setContents defaultValue) =
     Inr (setContents defaultValue)"
proof -
  have h: "getSelection (setContents defaultValue) = None"
    by (simp add: getSelection_def setContents_def)
  from click_without_selection [OF h] h show ?thesis by simp
qed

end
